theory Spec2Isabelle
  imports Main "HOL-Library.Word"
begin

section \<open>JavaScript values\<close>

text \<open>
  The library is dynamically typed: it tests its arguments with \<^verbatim>\<open>typeof\<close>,
  \<^verbatim>\<open>instanceof\<close> and truthiness, and it uses values as property keys and inside template
  strings. \<open>jsval\<close> is the plain data such an argument can be. A number is an integer from
  \<open>0\<close> to \<open>2\<^sup>3\<^sup>2 - 1\<close>, which is every length of an array; a plain object lists its own
  properties, each key once, and inherits from \<^verbatim>\<open>Object.prototype\<close>. \<open>AsPropRenamer\<close> is the
  helper class of the source with its two fields. Functions are not \<open>jsval\<close>s: the tables
  of functions the library receives are typed parameters of the operations below.
\<close>

datatype jsval =
    Undefined
  | Null
  | JBool bool
  | JNum "32 word"
  | JStr string
  | JArr "jsval list"
  | JObj "(string \<times> jsval) list"
  | AsPropRenamer (actionOrStateIndex: jsval) (propName: jsval)

text \<open>What \<^verbatim>\<open>new Error(msg)\<close> and the engine's own \<^verbatim>\<open>TypeError\<close> throw.\<close>

datatype err = Error string | TypeError

text \<open>
  An effectful computation: the lines it wrote with \<^verbatim>\<open>console.warn\<close>, in order, and then
  either the error it threw or the result it returned.
\<close>

type_synonym 'a res = "string list \<times> (err + 'a)"

fun truthy :: "jsval \<Rightarrow> bool" where
  "truthy Undefined = False"
| "truthy Null = False"
| "truthy (JBool b) = b"
| "truthy (JNum n) = (n \<noteq> 0)"
| "truthy (JStr s) = (s \<noteq> [])"
| "truthy (JArr xs) = True"
| "truthy (JObj ps) = True"
| "truthy (AsPropRenamer a p) = True"

fun typeof :: "jsval \<Rightarrow> string" where
  "typeof Undefined = ''undefined''"
| "typeof Null = ''object''"
| "typeof (JBool b) = ''boolean''"
| "typeof (JNum n) = ''number''"
| "typeof (JStr s) = ''string''"
| "typeof (JArr xs) = ''object''"
| "typeof (JObj ps) = ''object''"
| "typeof (AsPropRenamer a p) = ''object''"

text \<open>\<^verbatim>\<open>v instanceof Array\<close> and \<^verbatim>\<open>v instanceof AsPropRenamer\<close>.\<close>

fun instanceof_Array :: "jsval \<Rightarrow> bool" where
  "instanceof_Array (JArr xs) = True"
| "instanceof_Array v = False"

fun instanceof_AsPropRenamer :: "jsval \<Rightarrow> bool" where
  "instanceof_AsPropRenamer (AsPropRenamer a p) = True"
| "instanceof_AsPropRenamer v = False"

text \<open>Decimal digits of a number, as \<^verbatim>\<open>String(n)\<close> prints an integer below \<open>10\<^sup>2\<^sup>1\<close>.\<close>

fun string_of_nat :: "nat \<Rightarrow> string" where
  "string_of_nat n =
     (if n < 10 then [''0123456789'' ! n]
      else string_of_nat (n div 10) @ [''0123456789'' ! (n mod 10)])"

text \<open>
  The string a value becomes as a property key (\<^verbatim>\<open>obj[v]\<close>) and inside a template string
  (\<^verbatim>\<open>`${v}`\<close>); the conversion can throw. An object is converted by its \<^verbatim>\<open>toString\<close>
  method. A plain object that has no \<^verbatim>\<open>toString\<close> of its own, as an \<^verbatim>\<open>AsPropRenamer\<close>
  is, inherits the one that prints \<^verbatim>\<open>[object Object]\<close>. A plain object with a property
  \<^verbatim>\<open>toString\<close> of its own has a value there that is not a function (no \<open>jsval\<close> is); the
  engine then tries \<^verbatim>\<open>valueOf\<close>, which is not a function either or returns the object
  itself, and throws a \<^verbatim>\<open>TypeError\<close>. An array joins the strings of its elements with
  commas, \<^verbatim>\<open>undefined\<close> and \<^verbatim>\<open>null\<close> elements printing as nothing.
\<close>

fun to_str :: "jsval \<Rightarrow> err + string"
  and join_elems :: "jsval list \<Rightarrow> err + string" where
  "to_str Undefined = Inr ''undefined''"
| "to_str Null = Inr ''null''"
| "to_str (JBool b) = Inr (if b then ''true'' else ''false'')"
| "to_str (JNum n) = Inr (string_of_nat (unat n))"
| "to_str (JStr s) = Inr s"
| "to_str (JArr xs) = join_elems xs"
| "to_str (JObj ps) =
     (if map_of ps ''toString'' = None then Inr ''[object Object]'' else Inl TypeError)"
| "to_str (AsPropRenamer a p) = Inr ''[object Object]''"
| "join_elems [] = Inr []"
| "join_elems (x # xs) =
     (case (if x = Undefined \<or> x = Null then Inr [] else to_str x) of
        Inl e \<Rightarrow> Inl e
      | Inr s \<Rightarrow>
          if xs = [] then Inr s
          else (case join_elems xs of
                  Inl e \<Rightarrow> Inl e
                | Inr r \<Rightarrow> Inr (s @ CHR '','' # r)))"

section \<open>Plain objects\<close>

text \<open>
  An object the library builds or merges is a map from property names to values:
  \<^verbatim>\<open>obj[k]\<close> is \<open>obj k\<close>, with \<open>None\<close> for a property the object does not have, and
  \<^verbatim>\<open>obj[k] = v\<close> is \<open>obj(k \<mapsto> v)\<close>. The order in which an object enumerates its
  properties is not modelled.
\<close>

type_synonym 'v obj = "string \<rightharpoonup> 'v"

text \<open>
  \<^verbatim>\<open>Object.assign(target, ...sources)\<close>: every own property of every source is written to
  the target, sources from left to right, so that each source overrides what is there
  (\<open>m ++ n\<close> is \<open>m\<close> overridden by \<open>n\<close>). Called with no argument at all, the target is
  \<^verbatim>\<open>undefined\<close> and the engine throws a \<^verbatim>\<open>TypeError\<close>.
\<close>

fun object_assign :: "'v obj list \<Rightarrow> err + 'v obj" where
  "object_assign [] = Inl TypeError"
| "object_assign (target # sources) = Inr (foldl (++) target sources)"

text \<open>
  \<^verbatim>\<open>xs.reduce(f, init)\<close> for a callback that may warn and may throw: the warnings add up
  in order, and the first error ends the loop.
\<close>

fun reduce :: "('b \<Rightarrow> 'a \<Rightarrow> 'b res) \<Rightarrow> 'a list \<Rightarrow> 'b \<Rightarrow> 'b res" where
  "reduce f [] acc = ([], Inr acc)"
| "reduce f (x # xs) acc =
     (case f acc x of
        (w, Inl e) \<Rightarrow> (w, Inl e)
      | (w, Inr acc') \<Rightarrow> (case reduce f xs acc' of (w', r) \<Rightarrow> (w @ w', r)))"

section \<open>What a table inherits\<close>

text \<open>
  The tables the library receives (reducer functions, actions, prop overrides) and the root
  state are plain objects, and the library reads them with \<^verbatim>\<open>table[key]\<close>. Such a read
  finds the table's own property first and, when there is none, the member of that name
  that the table inherits from \<^verbatim>\<open>Object.prototype\<close>: \<^verbatim>\<open>toString\<close>, \<^verbatim>\<open>constructor\<close>,
  \<^verbatim>\<open>hasOwnProperty\<close>, \<^verbatim>\<open>__proto__\<close> and the others. A table is the map of its own
  properties, which hold what the source documents (functions, or the slices of the
  state); what it inherits is a second map, a parameter of every operation that reads a
  table, since the members and what they do when called belong to the engine and not to
  this repository. An inherited member that is falsy reads as an absent one everywhere and
  is left out of the map. The inherited members are writable data properties, as those of
  \<^verbatim>\<open>Object.prototype\<close> are, but for the accessor \<^verbatim>\<open>__proto__\<close>.
\<close>

definition read_property :: "(string \<rightharpoonup> 'i) \<Rightarrow> (string \<rightharpoonup> 'i) \<Rightarrow> string \<Rightarrow> 'i option" where
  "read_property inherited table key =
     (case table key of Some v \<Rightarrow> Some v | None \<Rightarrow> inherited key)"

text \<open>
  \<^verbatim>\<open>obj[key] = v\<close> on an object made by \<^verbatim>\<open>{}\<close>: the value becomes the object's own
  property, unless the key is \<^verbatim>\<open>__proto__\<close>, which names the accessor inherited from
  \<^verbatim>\<open>Object.prototype\<close>; its setter replaces the prototype of the object, or does nothing,
  and the object gets no property of its own.
\<close>

definition assign_property :: "string \<Rightarrow> 'v \<Rightarrow> 'v obj \<Rightarrow> 'v obj" where
  "assign_property key v ob = (if key = ''__proto__'' then ob else ob(key \<mapsto> v))"

section \<open>Namespaced reducers\<close>

text \<open>
  An action is a record with its \<^verbatim>\<open>type\<close> string and a payload. A namespace state is any
  type \<open>'s\<close>; \<open>None\<close> stands for \<^verbatim>\<open>undefined\<close>, the one value a default parameter
  replaces. The reducer table holds functions of its own, as the source documents it. The
  test \<^verbatim>\<open>reducerFunctions[action.type] ? ... : ...\<close> is on a property read, so it also
  finds a truthy inherited member, and the reducer then calls it: an inherited function
  returns or throws as the engine has it, and an inherited member that is not a function
  (\<^verbatim>\<open>__proto__\<close>) cannot be called, a \<^verbatim>\<open>TypeError\<close>.
\<close>

record 'p action =
  action_type :: string
  payload :: 'p

type_synonym ('s, 'p) reducer_fn = "'s option \<Rightarrow> 'p action \<Rightarrow> 's option"

datatype 'f member = Function 'f | NotFunction

type_synonym ('s, 'p) inherited_reducer_member =
  "('s option \<Rightarrow> 'p action \<Rightarrow> err + 's option) member"

text \<open>The reducer is a function object with one more property, \<^verbatim>\<open>reduxNamespace\<close>.\<close>

record ('s, 'p) reducer =
  reducer_call :: "'s option \<Rightarrow> 'p action \<Rightarrow> err + 's option"
  reduxNamespace :: string

definition createNamespacedReducer ::
  "(string \<rightharpoonup> ('s, 'p) inherited_reducer_member) \<Rightarrow> string \<Rightarrow> 's option
     \<Rightarrow> (string \<rightharpoonup> ('s, 'p) reducer_fn) \<Rightarrow> ('s, 'p) reducer" where
  "createNamespacedReducer inherited namespace initialState reducerFunctions =
     \<lparr> reducer_call = (\<lambda>state0 action.
          let state = (case state0 of None \<Rightarrow> initialState | Some s \<Rightarrow> Some s)
          in case reducerFunctions (action_type action) of
               Some handler \<Rightarrow> Inr (handler state action)
             | None \<Rightarrow>
                 (case inherited (action_type action) of
                    Some (Function f) \<Rightarrow> f state action
                  | Some NotFunction \<Rightarrow> Inl TypeError
                  | None \<Rightarrow> Inr state)),
       reduxNamespace = namespace \<rparr>"



section \<open>The configuration check\<close>

text \<open>
  \<^verbatim>\<open>xs.concat(x)\<close> returns a new array and leaves \<^verbatim>\<open>xs\<close> as it was. A statement that
  only evaluates an expression keeps the variables of the function unchanged.
\<close>

definition js_concat :: "'a list \<Rightarrow> 'a \<Rightarrow> 'a list" where
  "js_concat xs x = xs @ [x]"

definition expression_statement :: "'e \<Rightarrow> 'v \<Rightarrow> 'v" where
  "expression_statement e vars = vars"

fun js_join :: "string \<Rightarrow> string list \<Rightarrow> string" where
  "js_join sep [] = []"
| "js_join sep [x] = x"
| "js_join sep (x # y # ys) = x @ sep @ js_join sep (y # ys)"

text \<open>
  \<^verbatim>\<open>config[key]\<close> for a value whose \<^verbatim>\<open>typeof\<close> is \<^verbatim>\<open>'object'\<close>: \<^verbatim>\<open>null\<close> throws, an array
  has its indices and its length, an object its own properties. Inherited properties are
  functions or objects, never strings, and read as \<^verbatim>\<open>undefined\<close> here; the check below
  only asks whether the property is a string.
\<close>

definition array_get :: "jsval list \<Rightarrow> string \<Rightarrow> jsval" where
  "array_get xs key =
     (case find (\<lambda>i. string_of_nat i = key) [0 ..< length xs] of
        Some i \<Rightarrow> xs ! i
      | None \<Rightarrow> if key = ''length'' then JNum (of_nat (length xs)) else Undefined)"

fun property :: "jsval \<Rightarrow> string \<Rightarrow> err + jsval" where
  "property Undefined key = Inl TypeError"
| "property Null key = Inl TypeError"
| "property (JObj ps) key = Inr (case map_of ps key of Some v \<Rightarrow> v | None \<Rightarrow> Undefined)"
| "property (JArr xs) key = Inr (array_get xs key)"
| "property (AsPropRenamer a p) key =
     Inr (if key = ''actionOrStateIndex'' then a else if key = ''propName'' then p else Undefined)"
| "property v key = Inr Undefined"

text \<open>
  The second \<^verbatim>\<open>throw\<close> of the check: its message is built from the prop name and then the
  config name, and a conversion that throws is thrown instead of the error.
\<close>

definition throw_config_required :: "jsval \<Rightarrow> jsval \<Rightarrow> err" where
  "throw_config_required propName' requiredConfigName =
     (case to_str propName' of
        Inl e \<Rightarrow> e
      | Inr p \<Rightarrow>
          (case to_str requiredConfigName of
             Inl e \<Rightarrow> e
           | Inr r \<Rightarrow>
               Error (''In `'' @ p @ ''` override in `connectProductListProductsModel`.''
                 @ ''  Config property `'' @ r @ ''` is required but not specified'')))"

definition checkConfigPrerequisiteSatisfied ::
  "jsval \<Rightarrow> jsval \<Rightarrow> jsval \<Rightarrow> jsval \<Rightarrow> err + unit" where
  "checkConfigPrerequisiteSatisfied connectorName propName' requiredConfigName config =
     (let missingParams0 = ([] :: string list);
          missingParams1 =
            (if \<not> truthy connectorName
             then expression_statement (js_concat missingParams0 ''connectorName'') missingParams0
             else missingParams0);
          missingParams2 =
            (if \<not> truthy propName'
             then expression_statement (js_concat missingParams1 ''propName'') missingParams1
             else missingParams1);
          missingParams =
            (if \<not> truthy requiredConfigName
             then expression_statement (js_concat missingParams2 ''requiredConfigName'') missingParams2
             else missingParams2)
      in if length missingParams \<noteq> 0
         then Inl (Error (''Invalid call to react-redux-connector's isConfigPrerequisiteSatisfied ''
                @ ''function.  No value specified for param(s): '' @ js_join '', '' missingParams))
         else if typeof config \<noteq> ''object''
         then Inl (throw_config_required propName' requiredConfigName)
         else (case to_str requiredConfigName of
                 Inl e \<Rightarrow> Inl e
               | Inr key \<Rightarrow>
                   (case property config key of
                      Inl e \<Rightarrow> Inl e
                    | Inr v \<Rightarrow>
                        if typeof v \<noteq> ''string''
                        then Inl (throw_config_required propName' requiredConfigName)
                        else Inr ())))"

section \<open>Namespace connectors\<close>

text \<open>
  The state of a namespace is an Immutable.js Map whose keys are prop names; \<^verbatim>\<open>has\<close> and
  \<^verbatim>\<open>get\<close> compare keys by value, so a key that is not a string is not found. The root
  state is an object from namespace to slice. What the read \<^verbatim>\<open>rootState[namespace]\<close>
  gives is such a Map, or a falsy value (\<^verbatim>\<open>undefined\<close> for a namespace that is neither
  the root state's own nor inherited, \<^verbatim>\<open>null\<close>, \<^verbatim>\<open>0\<close>, ...), or a truthy value that is
  not a Map and has no method \<^verbatim>\<open>has\<close>, as the members the root state inherits are.
\<close>

type_synonym imap = "string \<rightharpoonup> jsval"

definition imap_has :: "imap \<Rightarrow> jsval \<Rightarrow> bool" where
  "imap_has m key = (case key of JStr s \<Rightarrow> m s \<noteq> None | _ \<Rightarrow> False)"

definition imap_get :: "imap \<Rightarrow> jsval \<Rightarrow> jsval" where
  "imap_get m key =
     (case key of
        JStr s \<Rightarrow> (case m s of Some v \<Rightarrow> v | None \<Rightarrow> Undefined)
      | _ \<Rightarrow> Undefined)"

datatype slice = FalsySlice | StateMap imap | NotAMap

type_synonym root_state = "slice obj"

text \<open>
  A prop override is a function of the namespace state, the component's own props and the
  connector's config. It returns the prop's value or throws (an override is where
  \<^const>\<open>checkConfigPrerequisiteSatisfied\<close> is meant to be called). The table of overrides
  and the table of actions hold functions of their own, as the source documents them. An
  action function is a value of any type \<open>'a\<close>: the library passes it on and never calls
  it.

  What the three objects inherit, as the library can observe it: the truthy members an
  action table passes on, the members that are functions and that the test
  \<^verbatim>\<open>typeof propOverrides[k] === 'function'\<close> accepts as overrides, and the truthy members
  a root state gives as slices.
\<close>

type_synonym override = "slice \<Rightarrow> jsval \<Rightarrow> jsval \<Rightarrow> err + jsval"

type_synonym state_mapper = "root_state \<Rightarrow> jsval \<Rightarrow> jsval obj res"

record 'a object_prototype =
  inherited_actions :: "string \<rightharpoonup> 'a"
  inherited_overrides :: "string \<rightharpoonup> override"
  inherited_slices :: "string \<rightharpoonup> slice"

text \<open>\<^verbatim>\<open>Object.keys(table).includes(v)\<close>: the table's own keys, and only a string can equal one.\<close>

definition keys_includes :: "(string \<rightharpoonup> 'f) \<Rightarrow> jsval \<Rightarrow> bool" where
  "keys_includes table v = (case v of JStr s \<Rightarrow> table s \<noteq> None | _ \<Rightarrow> False)"

text \<open>
  The \<^verbatim>\<open>else\<close> branch of the state mapping: the template string converts the name, which
  can throw.
\<close>

definition warn_invalid_state_key :: "jsval \<Rightarrow> jsval obj \<Rightarrow> jsval obj res" where
  "warn_invalid_state_key propNameStr newPropsObj =
     (case to_str propNameStr of
        Inl e \<Rightarrow> ([], Inl e)
      | Inr s \<Rightarrow> ([''Warning: Attempted to map invalid state key name '' @ s], Inr newPropsObj))"

text \<open>
  \<^verbatim>\<open>outNewPropsObj[name] = override(state, ownProps, config)\<close>: the right-hand side is
  evaluated, and then the name is converted to a property key.
\<close>

definition assign_override ::
  "jsval \<Rightarrow> override \<Rightarrow> slice \<Rightarrow> jsval \<Rightarrow> jsval \<Rightarrow> jsval obj \<Rightarrow> jsval obj res" where
  "assign_override name override state ownProps config newPropsObj =
     (case override state ownProps config of
        Inl e \<Rightarrow> ([], Inl e)
      | Inr v \<Rightarrow>
          (case to_str name of
             Inl e \<Rightarrow> ([], Inl e)
           | Inr key \<Rightarrow> ([], Inr (assign_property key v newPropsObj))))"

text \<open>
  The callback of the \<^verbatim>\<open>reduce\<close> in \<^verbatim>\<open>createMapStateToPropsFunc\<close>, one requested prop.
  The first condition converts the entry to a property key and reads the override table.
  Of the three conditions that follow, a string reaches \<^verbatim>\<open>state.has\<close> in the second
  only, and a renaming directive in the third, where its source must be found for the
  fourth to be skipped; on a state that is not a Map the call of \<^verbatim>\<open>state.has\<close> throws
  a \<^verbatim>\<open>TypeError\<close>. Any other entry fails all three.
\<close>

definition mapStateToProps_callback ::
  "(string \<rightharpoonup> override) \<Rightarrow> (string \<rightharpoonup> override) \<Rightarrow> jsval \<Rightarrow> slice \<Rightarrow> jsval
     \<Rightarrow> jsval obj \<Rightarrow> jsval \<Rightarrow> jsval obj res" where
  "mapStateToProps_callback inherited propOverrides config state ownProps newPropsObj propName' =
     (case to_str propName' of
        Inl e \<Rightarrow> ([], Inl e)
      | Inr key \<Rightarrow>
          (case read_property inherited propOverrides key of
             Some override \<Rightarrow>
               assign_override propName' override state ownProps config newPropsObj
           | None \<Rightarrow>
               if typeof propName' = ''string''
               then (case state of
                       StateMap m \<Rightarrow>
                         if imap_has m propName'
                         then ([], Inr (assign_property key (imap_get m propName') newPropsObj))
                         else warn_invalid_state_key propName' newPropsObj
                     | _ \<Rightarrow> ([], Inl TypeError))
               else if instanceof_AsPropRenamer propName'
               then (case state of
                       StateMap m \<Rightarrow>
                         if imap_has m (actionOrStateIndex propName')
                         then (case to_str (propName propName') of
                                 Inl e \<Rightarrow> ([], Inl e)
                               | Inr target \<Rightarrow>
                                   ([], Inr (assign_property target
                                      (imap_get m (actionOrStateIndex propName')) newPropsObj)))
                         else if keys_includes propOverrides (actionOrStateIndex propName')
                         then (case to_str (actionOrStateIndex propName') of
                                 Inl e \<Rightarrow> ([], Inl e)
                               | Inr source \<Rightarrow>
                                   (case read_property inherited propOverrides source of
                                      None \<Rightarrow> ([], Inl TypeError)
                                    | Some override \<Rightarrow>
                                        assign_override (propName propName') override
                                          state ownProps config newPropsObj))
                         else warn_invalid_state_key (actionOrStateIndex propName') newPropsObj
                     | _ \<Rightarrow> ([], Inl TypeError))
               else warn_invalid_state_key propName' newPropsObj))"

definition namespace_missing_message :: "string \<Rightarrow> string" where
  "namespace_missing_message reduxNamespace' =
     ''Unable to find state namespace '' @ [CHR 0x27] @ reduxNamespace' @ [CHR 0x27]
       @ ''; Perhaps you forgot to add the namespaced reducer to your call to ''
       @ [CHR 0x27] @ ''combineNamespacedReducers'' @ [CHR 0x27] @ ''?''"

text \<open>
  The destructuring \<^verbatim>\<open>{ [reduxNamespace]: state }\<close> is a property read of the root state.
\<close>

definition createMapStateToPropsFunc ::
  "'a object_prototype \<Rightarrow> string \<Rightarrow> (string \<rightharpoonup> override) \<Rightarrow> jsval \<Rightarrow> jsval \<Rightarrow> state_mapper" where
  "createMapStateToPropsFunc proto reduxNamespace' propOverrides propsToConnect config
       rootState ownProps =
     (let state = (case read_property (inherited_slices proto) rootState reduxNamespace' of
                     Some s \<Rightarrow> s
                   | None \<Rightarrow> FalsySlice)
      in if state = FalsySlice
         then ([], Inl (Error (namespace_missing_message reduxNamespace')))
         else (case propsToConnect of
                 JArr props \<Rightarrow>
                   reduce (mapStateToProps_callback (inherited_overrides proto) propOverrides
                             config state ownProps)
                     props Map.empty
               | _ \<Rightarrow> ([], Inr Map.empty)))"

text \<open>
  The \<^verbatim>\<open>else\<close> branch of the dispatch mapping: the template string converts the entry.
\<close>

definition warn_invalid_action_name :: "jsval \<Rightarrow> 'a obj \<Rightarrow> 'a obj res" where
  "warn_invalid_action_name actionName newState =
     (case to_str actionName of
        Inl e \<Rightarrow> ([], Inl e)
      | Inr s \<Rightarrow> ([''Warning: Attempted to map invalid action name '' @ s], Inr newState))"

text \<open>
  The callback of the \<^verbatim>\<open>reduce\<close> in \<^verbatim>\<open>createMapDispatchToPropsObj\<close>, one requested action.
  Both conditions test a property read of the action table for truthiness.
\<close>

definition mapDispatchToProps_callback ::
  "(string \<rightharpoonup> 'a) \<Rightarrow> (string \<rightharpoonup> 'a) \<Rightarrow> 'a obj \<Rightarrow> jsval \<Rightarrow> 'a obj res" where
  "mapDispatchToProps_callback inherited allActionsObj newState actionName =
     (if typeof actionName = ''string''
      then (case to_str actionName of
              Inl e \<Rightarrow> ([], Inl e)
            | Inr key \<Rightarrow>
                (case read_property inherited allActionsObj key of
                   Some f \<Rightarrow> ([], Inr (assign_property key f newState))
                 | None \<Rightarrow> warn_invalid_action_name actionName newState))
      else if instanceof_AsPropRenamer actionName
      then (case to_str (actionOrStateIndex actionName) of
              Inl e \<Rightarrow> ([], Inl e)
            | Inr source \<Rightarrow>
                (case read_property inherited allActionsObj source of
                   Some f \<Rightarrow>
                     (case to_str (propName actionName) of
                        Inl e \<Rightarrow> ([], Inl e)
                      | Inr target \<Rightarrow> ([], Inr (assign_property target f newState)))
                 | None \<Rightarrow> warn_invalid_action_name actionName newState))
      else warn_invalid_action_name actionName newState)"

text \<open>
  \<^verbatim>\<open>actionsToConnect.reduce\<close> exists on an array only; on any other value the call throws
  a \<^verbatim>\<open>TypeError\<close>.
\<close>

definition createMapDispatchToPropsObj ::
  "(string \<rightharpoonup> 'a) \<Rightarrow> (string \<rightharpoonup> 'a) \<Rightarrow> jsval \<Rightarrow> 'a obj res" where
  "createMapDispatchToPropsObj inherited allActionsObj actionsToConnect =
     (case actionsToConnect of
        JArr actions \<Rightarrow>
          reduce (mapDispatchToProps_callback inherited allActionsObj) actions Map.empty
      | _ \<Rightarrow> ([], Inl TypeError))"

text \<open>
  \<^verbatim>\<open>connect\<close> of react-redux is not part of this repository. A call to it is modelled by
  the arguments it is given; \<open>None\<close> is an argument left out or \<^verbatim>\<open>undefined\<close>.
\<close>

record ('a, 'm, 'o) connect_args =
  mapStateToProps :: state_mapper
  mapDispatchToProps :: "'a obj"
  mergePropsArg :: "'m option"
  optionsArg :: "'o option"

text \<open>
  A connector is a function object with two more properties, the curried builders. Its
  parameters \<^verbatim>\<open>propsToConnect\<close> and \<^verbatim>\<open>config\<close> have defaults, which replace
  \<^verbatim>\<open>undefined\<close> only; \<^verbatim>\<open>actionsToConnect || []\<close> replaces every falsy value. A table
  left out is \<^verbatim>\<open>{}\<close>, with no property of its own.
\<close>

record ('a, 'm, 'o) connector =
  connector_call :: "jsval \<Rightarrow> jsval \<Rightarrow> jsval \<Rightarrow> ('a, 'm, 'o) connect_args res"
  curriedCreateMapStateToProps :: "jsval \<Rightarrow> jsval \<Rightarrow> state_mapper"
  curriedCreateMapDispatchToProps :: "jsval \<Rightarrow> 'a obj res"

definition default_param :: "jsval \<Rightarrow> jsval \<Rightarrow> jsval" where
  "default_param v d = (if v = Undefined then d else v)"

definition or_else :: "jsval \<Rightarrow> jsval \<Rightarrow> jsval" where
  "or_else v d = (if truthy v then v else d)"

definition createNamespaceConnector ::
  "'a object_prototype \<Rightarrow> string \<Rightarrow> (string \<rightharpoonup> 'a) option \<Rightarrow> (string \<rightharpoonup> override) option
     \<Rightarrow> ('a, 'm, 'o) connector" where
  "createNamespaceConnector proto reduxNamespace' allActionsObj0 propOverrides0 =
     (let allActionsObj = (case allActionsObj0 of None \<Rightarrow> Map.empty | Some t \<Rightarrow> t);
          propOverrides = (case propOverrides0 of None \<Rightarrow> Map.empty | Some t \<Rightarrow> t)
      in \<lparr> connector_call = (\<lambda>propsToConnect actionsToConnect config.
              case createMapDispatchToPropsObj (inherited_actions proto) allActionsObj
                     (or_else actionsToConnect (JArr [])) of
                (w, Inl e) \<Rightarrow> (w, Inl e)
              | (w, Inr dispatchObj) \<Rightarrow>
                  (w, Inr \<lparr> mapStateToProps =
                             createMapStateToPropsFunc proto reduxNamespace' propOverrides
                               (default_param propsToConnect (JArr []))
                               (default_param config (JObj [])),
                           mapDispatchToProps = dispatchObj,
                           mergePropsArg = None,
                           optionsArg = None \<rparr>)),
           curriedCreateMapStateToProps = (\<lambda>propsToConnect config.
              createMapStateToPropsFunc proto reduxNamespace' propOverrides propsToConnect config),
           curriedCreateMapDispatchToProps = (\<lambda>actionsToConnect.
              createMapDispatchToPropsObj (inherited_actions proto) allActionsObj
                (or_else actionsToConnect (JArr []))) \<rparr>)"

section \<open>Combined connectors\<close>

text \<open>
  \<^verbatim>\<open>combineConnectors\<close> closes over two arrays and two variables, which \<^verbatim>\<open>push\<close> and
  \<^verbatim>\<open>connect\<close> update; they are the state of the builder, passed explicitly here.
\<close>

record ('a, 'm, 'o) builder =
  stateMappers :: "state_mapper list"
  mappedDispatches :: "'a obj list"
  mergeProps :: "'m option"
  options :: "'o option"

text \<open>
  Each positional argument of \<^verbatim>\<open>combineConnectors\<close> is an array, destructured as
  \<^verbatim>\<open>[connector, propsToConnect, actionsToConnect, config]\<close>, an element left out reading as
  \<^verbatim>\<open>undefined\<close>. Its first element is a connector, or in the misuse the function guards
  against, itself an array.
\<close>

datatype ('a, 'm, 'o) first_element =
    Connector "('a, 'm, 'o) connector"
  | NestedArray

type_synonym ('a, 'm, 'o) connector_and_params =
  "('a, 'm, 'o) first_element \<times> jsval \<times> jsval \<times> jsval"

text \<open>
  \<^verbatim>\<open>pushFunc\<close>. An array has no \<^verbatim>\<open>curriedCreateMapStateToProps\<close>, so calling it throws a
  \<^verbatim>\<open>TypeError\<close>. When a call throws, the error propagates out of the chain and no
  builder is returned.
\<close>

definition pushFunc ::
  "('a, 'm, 'o) builder \<Rightarrow> ('a, 'm, 'o) first_element \<Rightarrow> jsval \<Rightarrow> jsval \<Rightarrow> jsval
     \<Rightarrow> ('a, 'm, 'o) builder res" where
  "pushFunc b connector' propsToConnect actionsToConnect config =
     (case (if truthy propsToConnect
            then (case connector' of
                    Connector c \<Rightarrow>
                      Inr (b\<lparr>stateMappers := stateMappers b
                             @ [curriedCreateMapStateToProps c propsToConnect config]\<rparr>)
                  | NestedArray \<Rightarrow> Inl TypeError)
            else Inr b) of
        Inl e \<Rightarrow> ([], Inl e)
      | Inr b1 \<Rightarrow>
          if truthy actionsToConnect
          then (case connector' of
                  Connector c \<Rightarrow>
                    (case curriedCreateMapDispatchToProps c actionsToConnect of
                       (w, Inl e) \<Rightarrow> (w, Inl e)
                     | (w, Inr d) \<Rightarrow> (w, Inr (b1\<lparr>mappedDispatches := mappedDispatches b1 @ [d]\<rparr>)))
                | NestedArray \<Rightarrow> ([], Inl TypeError))
          else ([], Inr b1))"


definition invalid_first_argument_message :: string where
  "invalid_first_argument_message =
     ''Invalid first argument in call to `combineConnectors`; Use multiple ''
       @ ''arguments instead of two-dimensional Array''"

definition combineConnectors ::
  "('a, 'm, 'o) connector_and_params list \<Rightarrow> ('a, 'm, 'o) builder res" where
  "combineConnectors connectorsAndParams =
     (let b0 = \<lparr> stateMappers = [], mappedDispatches = [Map.empty],
                 mergeProps = None, options = None \<rparr>
      in case connectorsAndParams of
           (NestedArray, rest) # others \<Rightarrow> ([], Inl (Error invalid_first_argument_message))
         | _ \<Rightarrow>
             reduce (\<lambda>b (connector', propsToConnect, actionsToConnect, config).
                       pushFunc b connector' propsToConnect actionsToConnect config)
               connectorsAndParams b0)"

text \<open>
  \<^verbatim>\<open>combinedMapStateToPropsFuncs\<close>: every state mapper runs on the root state and the own
  props, its output pushed after the seed \<^verbatim>\<open>{}\<close>, and the outputs are merged.
\<close>

definition combinedMapStateToPropsFuncs :: "state_mapper list \<Rightarrow> state_mapper" where
  "combinedMapStateToPropsFuncs mappers state ownProps =
     (case reduce (\<lambda>mappedStates stateMapper.
                     case stateMapper state ownProps of
                       (w, Inl e) \<Rightarrow> (w, Inl e)
                     | (w, Inr ps) \<Rightarrow> (w, Inr (mappedStates @ [ps])))
             mappers [Map.empty] of
        (w, Inl e) \<Rightarrow> (w, Inl e)
      | (w, Inr mappedStates) \<Rightarrow> (w, object_assign mappedStates))"

text \<open>
  \<^verbatim>\<open>combinedConnectors\<close>, the builder applied to a component: the arguments it hands to
  \<^verbatim>\<open>connect\<close>, and the builder afterwards. \<^verbatim>\<open>Object.assign\<close> writes the merge into its
  first argument, which is the first element of \<^verbatim>\<open>mappedDispatches\<close>. The state mapper
  handed over runs the mappers accumulated at the time of the application.
\<close>

definition combinedConnectors ::
  "('a, 'm, 'o) builder \<Rightarrow> err + (('a, 'm, 'o) connect_args \<times> ('a, 'm, 'o) builder)" where
  "combinedConnectors b =
     (case object_assign (mappedDispatches b) of
        Inl e \<Rightarrow> Inl e
      | Inr combined \<Rightarrow>
          Inr (\<lparr> mapStateToProps = combinedMapStateToPropsFuncs (stateMappers b),
                 mapDispatchToProps = combined,
                 mergePropsArg = mergeProps b,
                 optionsArg = options b \<rparr>,
               b\<lparr>mappedDispatches := combined # tl (mappedDispatches b)\<rparr>))"




section \<open>The specification's words\<close>

text \<open>
  The definitions of this section follow the specification, not the source; the theorems
  below compare them with the code.

  A value converts when its conversion to a string returns, and then prints as that
  string. An entry converts when it does or, for a renaming directive, when its source
  and its target do.
\<close>

definition converts :: "jsval \<Rightarrow> bool" where
  "converts v = (case to_str v of Inr s \<Rightarrow> True | Inl e \<Rightarrow> False)"

definition printed :: "jsval \<Rightarrow> string" where
  "printed v = (case to_str v of Inr s \<Rightarrow> s | Inl e \<Rightarrow> [])"

definition entry_converts :: "jsval \<Rightarrow> bool" where
  "entry_converts entry =
     (case entry of
        AsPropRenamer source target \<Rightarrow> converts source \<and> converts target
      | _ \<Rightarrow> converts entry)"


text \<open>
  The action selection of the specification, with "present in the action table" read as
  the code reads the table, own properties and then inherited members: a plain string
  present in the action table passes under its own name, a renaming directive whose source
  is present passes under its target name, and any other entry selects nothing.
\<close>

definition selected_action ::
  "(string \<rightharpoonup> 'a) \<Rightarrow> (string \<rightharpoonup> 'a) \<Rightarrow> jsval \<Rightarrow> (string \<times> 'a) option" where
  "selected_action inherited actionTable entry =
     (case entry of
        JStr name \<Rightarrow>
          (case read_property inherited actionTable name of
             Some f \<Rightarrow> Some (name, f)
           | None \<Rightarrow> None)
      | AsPropRenamer source target \<Rightarrow>
          (case read_property inherited actionTable (printed source) of
             Some f \<Rightarrow> Some (printed target, f)
           | None \<Rightarrow> None)
      | _ \<Rightarrow> None)"

definition selects_proto :: "(string \<rightharpoonup> 'a) \<Rightarrow> (string \<rightharpoonup> 'a) \<Rightarrow> jsval \<Rightarrow> bool" where
  "selects_proto inherited actionTable entry =
     (case selected_action inherited actionTable entry of
        Some (name, f) \<Rightarrow> name = ''__proto__''
      | None \<Rightarrow> False)"





section \<open>An engine for the examples\<close>

text \<open>
  The examples below read one inherited member, \<^verbatim>\<open>toString\<close> of \<^verbatim>\<open>Object.prototype\<close>,
  and no other. Called as a method of a plain object, whatever its arguments, it returns
  \<^verbatim>\<open>[object Object]\<close>; it is a function, so it is truthy, and it has no method \<^verbatim>\<open>has\<close>.
  \<open>toString_function\<close> stands for the function object itself where an action table
  passes it on.
\<close>

definition prototype_toString :: "'a \<Rightarrow> 'a object_prototype" where
  "prototype_toString toString_function =
     \<lparr> inherited_actions = [''toString'' \<mapsto> toString_function],
       inherited_overrides =
         [''toString'' \<mapsto> (\<lambda>state ownProps config. Inr (JStr ''[object Object]''))],
       inherited_slices = [''toString'' \<mapsto> NotAMap] \<rparr>"

definition reducer_prototype_toString ::
  "string \<rightharpoonup> (string, 'p) inherited_reducer_member" where
  "reducer_prototype_toString =
     [''toString'' \<mapsto> Function (\<lambda>state action. Inr (Some ''[object Object]''))]"

section \<open>Loops and merges\<close>

lemma reduce_snoc:
  "reduce f (xs @ [x]) acc =
     (case reduce f xs acc of
        (w, Inl e) \<Rightarrow> (w, Inl e)
      | (w, Inr a) \<Rightarrow> (case f a x of (w', r) \<Rightarrow> (w @ w', r)))"
  by (induction xs arbitrary: acc) (auto split: prod.splits sum.splits)



lemma curried_state_of_connector:
  "curriedCreateMapStateToProps (createNamespaceConnector proto ns actions overrides) =
     createMapStateToPropsFunc proto ns (case overrides of None \<Rightarrow> Map.empty | Some t \<Rightarrow> t)"
  by (simp add: createNamespaceConnector_def Let_def)

lemma curried_dispatch_of_connector:
  "curriedCreateMapDispatchToProps (createNamespaceConnector proto ns actions overrides)
       actionsToConnect =
     createMapDispatchToPropsObj (inherited_actions proto)
       (case actions of None \<Rightarrow> Map.empty | Some t \<Rightarrow> t)
       (or_else actionsToConnect (JArr []))"
  by (simp add: createNamespaceConnector_def Let_def)


section \<open>Namespaced reducers: dispatch by action type\<close>

text \<open>
  Claim C2 says that the reducer returns the state unchanged when \<^verbatim>\<open>action.type\<close> is
  absent from the table. The table is read with \<^verbatim>\<open>reducerFunctions[action.type]\<close>, which
  finds what the table inherits: on the empty table and an action of type \<^verbatim>\<open>toString\<close>
  the reducer calls \<^verbatim>\<open>Object.prototype.toString\<close> and returns \<^verbatim>\<open>[object Object]\<close>, not
  the state.
\<close>

theorem createNamespacedReducer_inherited_type_counterexample:
  "(Map.empty :: string \<rightharpoonup> (string, unit) reducer_fn) ''toString'' = None
   \<and> reducer_call
       (createNamespacedReducer reducer_prototype_toString ''models/puppy'' (Some ''s0'') Map.empty)
       (Some ''s1'') \<lparr>action_type = ''toString'', payload = ()\<rparr>
     = Inr (Some ''[object Object]'')
   \<and> reducer_call
       (createNamespacedReducer reducer_prototype_toString ''models/puppy'' (Some ''s0'') Map.empty)
       (Some ''s1'') \<lparr>action_type = ''toString'', payload = ()\<rparr>
     \<noteq> Inr (Some ''s1'')"
  by (simp add: createNamespacedReducer_def reducer_prototype_toString_def)

text \<open>
  Claim C2, amended. The reducer returned by \<^verbatim>\<open>createNamespacedReducer\<close>, applied to a
  state and an action, returns what the table's own function for the action's type returns
  on that state and action when the table has one. When it has none, the reducer returns
  the state unchanged if the table inherits no truthy member of that name either; it
  returns or throws what the inherited function of that name does if there is one; and it
  throws a \<^verbatim>\<open>TypeError\<close> if the inherited member is not a function. Applied to
  \<^verbatim>\<open>undefined\<close> it behaves as applied to the initial state. It carries the namespace it
  was created with.
\<close>

theorem createNamespacedReducer_dispatch:
  "(\<forall>handler. reducerFunctions (action_type action) = Some handler \<longrightarrow>
      reducer_call (createNamespacedReducer inherited namespace initialState reducerFunctions)
          (Some s) action
        = Inr (handler (Some s) action))
   \<and> (reducerFunctions (action_type action) = None \<and> inherited (action_type action) = None \<longrightarrow>
      reducer_call (createNamespacedReducer inherited namespace initialState reducerFunctions)
          (Some s) action
        = Inr (Some s))
   \<and> (\<forall>f. reducerFunctions (action_type action) = None
          \<and> inherited (action_type action) = Some (Function f) \<longrightarrow>
      reducer_call (createNamespacedReducer inherited namespace initialState reducerFunctions)
          (Some s) action
        = f (Some s) action)
   \<and> (reducerFunctions (action_type action) = None
          \<and> inherited (action_type action) = Some NotFunction \<longrightarrow>
      reducer_call (createNamespacedReducer inherited namespace initialState reducerFunctions)
          (Some s) action
        = Inl TypeError)
   \<and> reducer_call (createNamespacedReducer inherited namespace initialState reducerFunctions)
          None action
        = reducer_call (createNamespacedReducer inherited namespace initialState reducerFunctions)
            initialState action
   \<and> reduxNamespace (createNamespacedReducer inherited namespace initialState reducerFunctions)
        = namespace"
  by (cases initialState) (auto simp: createNamespacedReducer_def Let_def split: option.splits)

theorem createNamespacedReducer_dispatch_witness:
  "reducer_call (createNamespacedReducer reducer_prototype_toString ''models/puppy'' (Some ''0'')
       [''models/puppy/ADD'' \<mapsto> (\<lambda>st a. map_option (\<lambda>n. n @ payload a) st)])
     (Some ''5'') \<lparr>action_type = ''models/puppy/ADD'', payload = ''2''\<rparr> = Inr (Some ''52'')
   \<and> reducer_call (createNamespacedReducer reducer_prototype_toString ''models/puppy'' (Some ''0'')
       [''models/puppy/ADD'' \<mapsto> (\<lambda>st a. map_option (\<lambda>n. n @ payload a) st)])
     (Some ''5'') \<lparr>action_type = ''models/kitten/ADD'', payload = ''2''\<rparr> = Inr (Some ''5'')
   \<and> reducer_call (createNamespacedReducer reducer_prototype_toString ''models/puppy'' (Some ''0'')
       [''models/puppy/ADD'' \<mapsto> (\<lambda>st a. map_option (\<lambda>n. n @ payload a) st)])
     (Some ''5'') \<lparr>action_type = ''toString'', payload = ''2''\<rparr> = Inr (Some ''[object Object]'')
   \<and> reducer_call (createNamespacedReducer reducer_prototype_toString ''models/puppy'' (Some ''0'')
       [''models/puppy/ADD'' \<mapsto> (\<lambda>st a. map_option (\<lambda>n. n @ payload a) st)])
     None \<lparr>action_type = ''models/puppy/ADD'', payload = ''2''\<rparr> = Inr (Some ''02'')
   \<and> reduxNamespace (createNamespacedReducer reducer_prototype_toString ''models/puppy'' (Some ''0'')
       [''models/puppy/ADD'' \<mapsto> (\<lambda>st a. map_option (\<lambda>n. n @ payload a) st)]) = ''models/puppy''"
  using createNamespacedReducer_dispatch
    [of "[''models/puppy/ADD'' \<mapsto> (\<lambda>st a. map_option (\<lambda>n. n @ payload a) st)]"
        "\<lparr>action_type = ''models/puppy/ADD'', payload = ''2''\<rparr>"
        reducer_prototype_toString "''models/puppy''" "Some ''0''" "''5''"]
    createNamespacedReducer_dispatch
    [of "[''models/puppy/ADD'' \<mapsto> (\<lambda>st a. map_option (\<lambda>n. n @ payload a) st)]"
        "\<lparr>action_type = ''models/kitten/ADD'', payload = ''2''\<rparr>"
        reducer_prototype_toString "''models/puppy''" "Some ''0''" "''5''"]
    createNamespacedReducer_dispatch
    [of "[''models/puppy/ADD'' \<mapsto> (\<lambda>st a. map_option (\<lambda>n. n @ payload a) st)]"
        "\<lparr>action_type = ''toString'', payload = ''2''\<rparr>"
        reducer_prototype_toString "''models/puppy''" "Some ''0''" "''5''"]
  by (simp add: createNamespacedReducer_def reducer_prototype_toString_def)

section \<open>The reducer combiner: the last reducer of a namespace wins\<close>




section \<open>The configuration check does not see a missing name\<close>

lemma checkConfigPrerequisiteSatisfied_names_unchecked:
  "checkConfigPrerequisiteSatisfied connectorName propName' requiredConfigName config =
     (if typeof config \<noteq> ''object''
      then Inl (throw_config_required propName' requiredConfigName)
      else (case to_str requiredConfigName of
              Inl e \<Rightarrow> Inl e
            | Inr key \<Rightarrow>
                (case property config key of
                   Inl e \<Rightarrow> Inl e
                 | Inr v \<Rightarrow>
                     if typeof v \<noteq> ''string''
                     then Inl (throw_config_required propName' requiredConfigName)
                     else Inr ())))"
  by (simp add: checkConfigPrerequisiteSatisfied_def expression_statement_def)

text \<open>
  Claim C5 says that \<^verbatim>\<open>checkConfigPrerequisiteSatisfied\<close> throws whenever one of its three
  names is falsy. The source collects the missing names with \<^verbatim>\<open>concat\<close>, which does not
  change \<^verbatim>\<open>missingParams\<close>, so the list stays empty and the first \<^verbatim>\<open>throw\<close> is never
  reached: with a config that has the required string, the check returns normally whether
  the connector name is \<^verbatim>\<open>undefined\<close>, the prop name is the empty string or the required
  config name is \<^verbatim>\<open>null\<close>.
\<close>

theorem checkConfigPrerequisiteSatisfied_falsy_names_pass:
  "checkConfigPrerequisiteSatisfied Undefined (JStr ''puppyRecords'') (JStr ''max'')
       (JObj [(''max'', JStr ''3'')]) = Inr ()
   \<and> checkConfigPrerequisiteSatisfied (JStr ''connectPuppyModel'') (JStr '''') (JStr ''max'')
       (JObj [(''max'', JStr ''3'')]) = Inr ()
   \<and> checkConfigPrerequisiteSatisfied (JStr ''connectPuppyModel'') (JStr ''puppyRecords'') Null
       (JObj [(''null'', JStr ''3'')]) = Inr ()"
  by (simp add: checkConfigPrerequisiteSatisfied_def expression_statement_def)

section \<open>The state mapping of a connector\<close>











text \<open>
  Claim C3 says that the state mapping throws the error naming the namespace whenever the
  root state has no slice under it. The slice is read from the root state as a property,
  and a namespace called \<^verbatim>\<open>toString\<close> reads the inherited function, which is truthy: on
  the empty root state the mapping of a request that is not an array returns the empty
  object, and the mapping of the request \<^verbatim>\<open>['count']\<close> throws a \<^verbatim>\<open>TypeError\<close>, for the
  function has no method \<^verbatim>\<open>has\<close>. Neither throws the error that names the namespace.
\<close>

theorem missing_namespace_counterexample:
  "(Map.empty :: root_state) ''toString'' = None
   \<and> curriedCreateMapStateToProps
       (createNamespaceConnector (prototype_toString (0::nat)) ''toString'' None None
          :: (nat, unit, unit) connector)
       (JStr ''count'') (JObj []) Map.empty (JObj [])
     = ([], Inr Map.empty)
   \<and> curriedCreateMapStateToProps
       (createNamespaceConnector (prototype_toString (0::nat)) ''toString'' None None
          :: (nat, unit, unit) connector)
       (JArr [JStr ''count'']) (JObj []) Map.empty (JObj [])
     = ([], Inl TypeError)"
  by (simp add: curried_state_of_connector createMapStateToPropsFunc_def read_property_def
        mapStateToProps_callback_def prototype_toString_def)

text \<open>
  Claim C3, amended. For a connector made by \<^verbatim>\<open>createNamespaceConnector\<close> over a
  namespace, the state mapping throws an error whose message names the namespace when the
  read of the root state at that namespace, of its own property or else of the member it
  inherits, gives nothing or a falsy value, whatever props were requested; this holds for
  the mapping the connector hands to \<^verbatim>\<open>connect\<close> and for the one its curried builder
  returns. When the read gives a truthy value and \<^verbatim>\<open>propsToConnect\<close> is not an array,
  the mapping returns the empty object, without a warning.
\<close>

theorem missing_namespace_throws:
  "((read_property (inherited_slices proto) rootState ns = None
       \<or> read_property (inherited_slices proto) rootState ns = Some FalsySlice) \<longrightarrow>
      curriedCreateMapStateToProps
          (createNamespaceConnector proto ns actions overrides :: ('a, 'm, 'o) connector)
          propsToConnect config rootState ownProps
        = ([], Inl (Error (''Unable to find state namespace '' @ [CHR 0x27] @ ns @ [CHR 0x27]
             @ ''; Perhaps you forgot to add the namespaced reducer to your call to ''
             @ [CHR 0x27] @ ''combineNamespacedReducers'' @ [CHR 0x27] @ ''?'')))
      \<and> (\<forall>w args. connector_call
              (createNamespaceConnector proto ns actions overrides :: ('a, 'm, 'o) connector)
              propsToConnect actionsToConnect config = (w, Inr args) \<longrightarrow>
            mapStateToProps args rootState ownProps
              = ([], Inl (Error (''Unable to find state namespace '' @ [CHR 0x27] @ ns @ [CHR 0x27]
                   @ ''; Perhaps you forgot to add the namespaced reducer to your call to ''
                   @ [CHR 0x27] @ ''combineNamespacedReducers'' @ [CHR 0x27] @ ''?'')))))
   \<and> ((\<exists>state. read_property (inherited_slices proto) rootState ns = Some state
                 \<and> state \<noteq> FalsySlice)
        \<and> \<not> instanceof_Array propsToConnect \<longrightarrow>
      curriedCreateMapStateToProps
          (createNamespaceConnector proto ns actions overrides :: ('a, 'm, 'o) connector)
          propsToConnect config rootState ownProps = ([], Inr Map.empty)
      \<and> (\<forall>w args. connector_call
              (createNamespaceConnector proto ns actions overrides :: ('a, 'm, 'o) connector)
              propsToConnect actionsToConnect config = (w, Inr args) \<longrightarrow>
            mapStateToProps args rootState ownProps = ([], Inr Map.empty)))
   \<and> read_property (inherited_slices proto) rootState ns
        = (case rootState ns of Some state \<Rightarrow> Some state | None \<Rightarrow> inherited_slices proto ns)"
  apply (cases propsToConnect)
  apply (auto simp: createNamespaceConnector_def createMapStateToPropsFunc_def Let_def
      namespace_missing_message_def default_param_def read_property_def
      split: prod.splits sum.splits option.splits)
  done

theorem missing_namespace_throws_witness:
  "curriedCreateMapStateToProps
       (createNamespaceConnector (prototype_toString (0::nat)) ''models/puppy'' None None
          :: (nat, unit, unit) connector)
       (JArr [JStr ''count'']) (JObj []) Map.empty (JObj [])
     = ([], Inl (Error
         ''Unable to find state namespace 'models/puppy'; Perhaps you forgot to add the namespaced reducer to your call to 'combineNamespacedReducers'?''))
   \<and> curriedCreateMapStateToProps
       (createNamespaceConnector (prototype_toString (0::nat)) ''models/puppy'' None None
          :: (nat, unit, unit) connector)
       (JStr ''count'') (JObj [])
       [''models/puppy'' \<mapsto> StateMap [''count'' \<mapsto> JNum 5]] (JObj [])
     = ([], Inr Map.empty)"
  using missing_namespace_throws
    [where 'a = nat and 'm = unit and 'o = unit,
     of "prototype_toString 0" Map.empty "''models/puppy''" None None
        "JArr [JStr ''count'']" "JObj []" "JObj []" Undefined]
    missing_namespace_throws
    [where 'a = nat and 'm = unit and 'o = unit,
     of "prototype_toString 0" "[''models/puppy'' \<mapsto> StateMap [''count'' \<mapsto> JNum 5]]"
        "''models/puppy''" None None "JStr ''count''" "JObj []" "JObj []" Undefined]
  by (simp add: read_property_def prototype_toString_def)

section \<open>The dispatch mapping of a connector\<close>

lemma mapDispatchToProps_callback_selected:
  assumes "entry_converts entry"
    and "\<not> selects_proto inherited tbl entry"
  shows "mapDispatchToProps_callback inherited tbl acc entry =
     (case selected_action inherited tbl entry of
        Some (k, f) \<Rightarrow> ([], Inr (acc(k \<mapsto> f)))
      | None \<Rightarrow>
          ([''Warning: Attempted to map invalid action name '' @ printed entry], Inr acc))"
proof (cases entry)
  case (AsPropRenamer src tgt)
  then show ?thesis using assms
    by (auto simp: mapDispatchToProps_callback_def selected_action_def selects_proto_def
          entry_converts_def converts_def printed_def assign_property_def
          warn_invalid_action_name_def split: option.splits sum.splits)
qed (use assms in \<open>auto simp: mapDispatchToProps_callback_def selected_action_def
        selects_proto_def entry_converts_def converts_def printed_def assign_property_def
        warn_invalid_action_name_def split: option.splits sum.splits if_splits\<close>)

lemma createMapDispatchToPropsObj_closed_form:
  assumes "list_all entry_converts actionsToConnect"
    and "list_all (\<lambda>entry. \<not> selects_proto inherited actionTable entry) actionsToConnect"
  shows "createMapDispatchToPropsObj inherited actionTable (JArr actionsToConnect) =
     (map (\<lambda>entry. ''Warning: Attempted to map invalid action name '' @ printed entry)
        (filter (\<lambda>entry. selected_action inherited actionTable entry = None) actionsToConnect),
      Inr (map_of (rev (List.map_filter (selected_action inherited actionTable)
                          actionsToConnect))))"
  using assms
proof (induction actionsToConnect rule: rev_induct)
  case Nil
  show ?case by (simp add: createMapDispatchToPropsObj_def)
next
  case (snoc e es)
  then have "createMapDispatchToPropsObj inherited actionTable (JArr es) =
     (map (\<lambda>entry. ''Warning: Attempted to map invalid action name '' @ printed entry)
        (filter (\<lambda>entry. selected_action inherited actionTable entry = None) es),
      Inr (map_of (rev (List.map_filter (selected_action inherited actionTable) es))))"
    and "entry_converts e" and "\<not> selects_proto inherited actionTable e"
    by simp_all
  then show ?case
    by (cases "selected_action inherited actionTable e")
       (auto simp: createMapDispatchToPropsObj_def reduce_snoc
          mapDispatchToProps_callback_selected List.map_filter_def)
qed

text \<open>
  Claim C8 says that an entry passes only when it, or its source, is present in the action
  table, under its own or its target name, and that no error is ever raised. The table is
  read as a property, which finds what it inherits: on the empty table the request
  \<^verbatim>\<open>['toString']\<close> passes \<^verbatim>\<open>Object.prototype.toString\<close> on and writes no warning. An
  entry that is an object with a property \<^verbatim>\<open>toString\<close> of its own cannot be printed in
  the warning: the mapping throws a \<^verbatim>\<open>TypeError\<close>. And the directive that renames the
  action \<^verbatim>\<open>load\<close> to \<^verbatim>\<open>__proto__\<close> assigns to the inherited accessor: the result has no
  prop, and there is no warning.
\<close>

theorem connector_dispatch_mapping_counterexample:
  "(Map.empty :: string \<rightharpoonup> string) ''toString'' = None
   \<and> curriedCreateMapDispatchToProps
       (createNamespaceConnector (prototype_toString ''Object.prototype.toString'')
          ''models/puppy'' (Some Map.empty) None :: (string, unit, unit) connector)
       (JArr [JStr ''toString''])
     = ([], Inr [''toString'' \<mapsto> ''Object.prototype.toString''])
   \<and> curriedCreateMapDispatchToProps
       (createNamespaceConnector (prototype_toString ''Object.prototype.toString'')
          ''models/puppy'' (Some Map.empty) None :: (string, unit, unit) connector)
       (JArr [JObj [(''toString'', JNum 1)]])
     = ([], Inl TypeError)
   \<and> curriedCreateMapDispatchToProps
       (createNamespaceConnector (prototype_toString ''Object.prototype.toString'')
          ''models/puppy'' (Some [''load'' \<mapsto> ''loadPuppy'']) None
          :: (string, unit, unit) connector)
       (JArr [AsPropRenamer (JStr ''load'') (JStr ''__proto__'')])
     = ([], Inr Map.empty)"
  by (simp add: curried_dispatch_of_connector createMapDispatchToPropsObj_def or_else_def
        mapDispatchToProps_callback_def warn_invalid_action_name_def read_property_def
        assign_property_def prototype_toString_def)

text \<open>
  Claim C8, amended. Take an action table and a list of requested actions in which every
  entry converts to a string, and in which no selected entry goes under the name
  \<^verbatim>\<open>__proto__\<close>. The dispatch mapping of a connector then returns and does not throw,
  from its curried builder and when the connector is called. Its object holds, for each
  entry that is selected (a string for which the read of the table, own property or else
  inherited member, is truthy, under its own name; a renaming directive for whose source
  it is, under its target name), the value read, a later entry overwriting an earlier one
  of the same name; and it writes one warning, in order, for each entry that selects
  nothing, which adds nothing to the object.
\<close>

theorem connector_dispatch_mapping_selection:
  assumes "list_all entry_converts actionsToConnect"
    and "list_all (\<lambda>entry. \<not> selects_proto (inherited_actions proto) actionTable entry)
           actionsToConnect"
  shows
  "let connector' = (createNamespaceConnector proto ns (Some actionTable) overrides
                       :: ('a, 'm, 'o) connector);
       warnings = map (\<lambda>entry. ''Warning: Attempted to map invalid action name '' @ printed entry)
                    (filter (\<lambda>entry. selected_action (inherited_actions proto) actionTable entry
                                        = None)
                       actionsToConnect);
       selected = map_of (rev (List.map_filter
                    (selected_action (inherited_actions proto) actionTable) actionsToConnect))
   in createMapDispatchToPropsObj (inherited_actions proto) actionTable (JArr actionsToConnect)
        = (warnings, Inr selected)
      \<and> curriedCreateMapDispatchToProps connector' (JArr actionsToConnect)
            = (warnings, Inr selected)
      \<and> (\<exists>args. connector_call connector' propsToConnect (JArr actionsToConnect) config
                    = (warnings, Inr args)
                \<and> mapDispatchToProps args = selected)"
  by (simp add: Let_def curried_dispatch_of_connector or_else_def
        createMapDispatchToPropsObj_closed_form [OF assms] createNamespaceConnector_def)

theorem connector_dispatch_mapping_selection_witness:
  "curriedCreateMapDispatchToProps
       (createNamespaceConnector (prototype_toString 0) ''models/puppy''
          (Some [''load'' \<mapsto> 1::nat, ''save'' \<mapsto> 2]) None
          :: (nat, unit, unit) connector)
       (JArr [JStr ''load'', AsPropRenamer (JStr ''save'') (JStr ''store''), JStr ''bark'',
              JStr ''toString''])
     = ([''Warning: Attempted to map invalid action name bark''],
        Inr [''load'' \<mapsto> 1, ''store'' \<mapsto> 2, ''toString'' \<mapsto> 0])"
proof -
  let ?entries = "[JStr ''load'', AsPropRenamer (JStr ''save'') (JStr ''store''), JStr ''bark'',
                   JStr ''toString'']"
  have convert: "list_all entry_converts ?entries"
    by (simp add: entry_converts_def converts_def)
  have names: "list_all (\<lambda>entry. \<not> selects_proto (inherited_actions (prototype_toString (0::nat)))
                  [''load'' \<mapsto> 1::nat, ''save'' \<mapsto> 2] entry) ?entries"
    by (simp add: selects_proto_def selected_action_def read_property_def printed_def
          prototype_toString_def)
  from connector_dispatch_mapping_selection
         [where 'm = unit and 'o = unit, OF convert names, of "''models/puppy''" None]
  show ?thesis
    by (simp add: Let_def selected_action_def List.map_filter_def read_property_def printed_def
          prototype_toString_def)
qed

text \<open>
  Claim C9. Called with \<^verbatim>\<open>actionsToConnect\<close> left out or \<^verbatim>\<open>undefined\<close>, a connector hands
  \<^verbatim>\<open>connect\<close> the empty object as its dispatch mapping, and its curried dispatch-mapper
  builder returns the empty object; neither writes a warning nor throws.
\<close>

theorem connector_actions_undefined:
  "curriedCreateMapDispatchToProps (createNamespaceConnector proto ns actions overrides :: ('a, 'm, 'o) connector) Undefined
     = ([], Inr Map.empty)
   \<and> (\<exists>args. connector_call (createNamespaceConnector proto ns actions overrides :: ('a, 'm, 'o) connector)
          propsToConnect Undefined config = ([], Inr args)
        \<and> mapDispatchToProps args = Map.empty)"
  by (simp add: createNamespaceConnector_def createMapDispatchToPropsObj_def or_else_def Let_def)

section \<open>Combined connectors: validation, accumulation and merge\<close>

text \<open>
  Claim C6. When the first positional argument of \<^verbatim>\<open>combineConnectors\<close> is an array whose
  first element is an array, the call throws the error "Invalid first argument ...",
  whatever the other elements and arguments are, and nothing has run before: no warning
  of a dispatch mapping has been written.
\<close>

theorem combineConnectors_nested_first_argument:
  "combineConnectors ((NestedArray, propsToConnect, actionsToConnect, config) # others)
     = ([], Inl (Error
         ''Invalid first argument in call to `combineConnectors`; Use multiple arguments instead of two-dimensional Array''))"
  by (simp add: combineConnectors_def invalid_first_argument_message_def)

text \<open>
  Claim C10. \<^verbatim>\<open>combineConnectors\<close> with no argument returns a builder with no state
  mapper and with the seeded empty object as its only dispatch object. Applied to a
  component it does not throw, although \<^verbatim>\<open>Object.assign\<close> on no argument would: both
  merges get the seed. The combined dispatch object is empty, and the combined state
  mapper returns the empty object on every state and own props.
\<close>

theorem combineConnectors_no_arguments:
  "\<exists>b. combineConnectors [] = ([], Inr b)
     \<and> stateMappers b = [] \<and> mappedDispatches b = [Map.empty]
     \<and> object_assign ([] :: 'a obj list) = Inl TypeError
     \<and> (\<exists>args b'. combinedConnectors b = Inr (args, b')
           \<and> mapDispatchToProps args = (Map.empty :: 'a obj)
           \<and> (\<forall>state ownProps. mapStateToProps args state ownProps = ([], Inr Map.empty)))"
  by (simp add: combineConnectors_def combinedConnectors_def combinedMapStateToPropsFuncs_def fun_eq_iff)










end
